theory Spec2Isabelle
  imports Main "HOL-Library.Word"
begin

unbundle bit_operations_syntax

section \<open>Strings, bytes and the library functions the middleware calls\<close>

text \<open>
  Go strings and byte slices are sequences of bytes; a \<^typ>\<open>char\<close> is one byte, so both are
  modelled as \<^typ>\<open>string\<close>. A Go \<^verbatim>\<open>error\<close> value is modelled by its message or by a
  constructor carrying its payload.
\<close>

definition byteval :: "char \<Rightarrow> nat" where
  "byteval c = of_char c"

subsection \<open>\<^verbatim>\<open>textproto.CanonicalMIMEHeaderKey\<close>\<close>

text \<open>
  A key made of header-token bytes only is rewritten so that the first letter and every
  letter after a dash is upper case and every other letter is lower case; a key holding any
  other byte (a space included) is returned as it is.
\<close>

definition isLowerAZ :: "char \<Rightarrow> bool" where
  "isLowerAZ c = (97 \<le> byteval c \<and> byteval c \<le> 122)"

definition isUpperAZ :: "char \<Rightarrow> bool" where
  "isUpperAZ c = (65 \<le> byteval c \<and> byteval c \<le> 90)"

definition isDigit09 :: "char \<Rightarrow> bool" where
  "isDigit09 c = (48 \<le> byteval c \<and> byteval c \<le> 57)"

definition validHeaderFieldByte :: "char \<Rightarrow> bool" where
  "validHeaderFieldByte c =
     (isLowerAZ c \<or> isUpperAZ c \<or> isDigit09 c \<or>
      c \<in> set [CHR ''!'', CHR ''#'', CHR ''$'', CHR ''%'', CHR ''&'', CHR 0x27, CHR ''*'',
                 CHR ''+'', CHR ''-'', CHR ''.'', CHR ''^'', CHR ''_'', CHR 0x60, CHR ''|'',
                 CHR ''~''])"

definition toLower :: nat where
  "toLower = 32"

fun canonicalLoop :: "bool \<Rightarrow> string \<Rightarrow> string" where
  "canonicalLoop upper [] = []"
| "canonicalLoop upper (c # cs) =
     (let c' = (if upper \<and> isLowerAZ c then char_of (byteval c - toLower)
                else if \<not> upper \<and> isUpperAZ c then char_of (byteval c + toLower)
                else c)
      in c' # canonicalLoop (c' = CHR ''-'') cs)"

definition CanonicalMIMEHeaderKey :: "string \<Rightarrow> string" where
  "CanonicalMIMEHeaderKey s =
     (if list_all validHeaderFieldByte s then canonicalLoop True s else s)"

subsection \<open>\<^verbatim>\<open>http.Header\<close>\<close>

text \<open>
  \<^verbatim>\<open>http.Header\<close> is \<^verbatim>\<open>map[string][]string\<close>. \<^verbatim>\<open>Get\<close> returns the first value stored
  under the canonical key, or the empty string; \<^verbatim>\<open>Set\<close> replaces the values, \<^verbatim>\<open>Add\<close>
  appends one, \<^verbatim>\<open>Del\<close> removes the key.
\<close>

type_synonym header = "string \<rightharpoonup> string list"

definition Get :: "header \<Rightarrow> string \<Rightarrow> string" where
  "Get h key =
     (case h (CanonicalMIMEHeaderKey key) of
        None \<Rightarrow> []
      | Some [] \<Rightarrow> []
      | Some (v # _) \<Rightarrow> v)"

definition Set :: "header \<Rightarrow> string \<Rightarrow> string \<Rightarrow> header" where
  "Set h key v = h(CanonicalMIMEHeaderKey key \<mapsto> [v])"

definition Add :: "header \<Rightarrow> string \<Rightarrow> string \<Rightarrow> header" where
  "Add h key v =
     h(CanonicalMIMEHeaderKey key \<mapsto>
         (case h (CanonicalMIMEHeaderKey key) of None \<Rightarrow> [] | Some vs \<Rightarrow> vs) @ [v])"

definition Del :: "header \<Rightarrow> string \<Rightarrow> header" where
  "Del h key = h(CanonicalMIMEHeaderKey key := None)"

subsection \<open>\<^verbatim>\<open>strings.TrimSpace\<close>\<close>

text \<open>
  \<^verbatim>\<open>TrimSpace\<close> removes leading and trailing white space as \<^verbatim>\<open>unicode.IsSpace\<close> defines
  it: the six ASCII bytes of \<open>asciiSpace\<close> and the UTF-8 encodings of U+0085, U+00A0, U+1680,
  U+2000 to U+200A, U+2028, U+2029, U+202F, U+205F and U+3000. A byte sequence that is not
  the encoding of one of these runes is not white space.
\<close>

definition asciiSpace :: "char \<Rightarrow> bool" where
  "asciiSpace c = (c \<in> set [CHR 0x09, CHR 0x0A, CHR 0x0B, CHR 0x0C, CHR 0x0D, CHR 0x20])"

definition unicodeSpace :: "string list" where
  "unicodeSpace =
     [[CHR 0xC2, CHR 0x85], [CHR 0xC2, CHR 0xA0], [CHR 0xE1, CHR 0x9A, CHR 0x80],
      [CHR 0xE2, CHR 0x80, CHR 0x80], [CHR 0xE2, CHR 0x80, CHR 0x81],
      [CHR 0xE2, CHR 0x80, CHR 0x82], [CHR 0xE2, CHR 0x80, CHR 0x83],
      [CHR 0xE2, CHR 0x80, CHR 0x84], [CHR 0xE2, CHR 0x80, CHR 0x85],
      [CHR 0xE2, CHR 0x80, CHR 0x86], [CHR 0xE2, CHR 0x80, CHR 0x87],
      [CHR 0xE2, CHR 0x80, CHR 0x88], [CHR 0xE2, CHR 0x80, CHR 0x89],
      [CHR 0xE2, CHR 0x80, CHR 0x8A], [CHR 0xE2, CHR 0x80, CHR 0xA8],
      [CHR 0xE2, CHR 0x80, CHR 0xA9], [CHR 0xE2, CHR 0x80, CHR 0xAF],
      [CHR 0xE2, CHR 0x81, CHR 0x9F], [CHR 0xE3, CHR 0x80, CHR 0x80]]"

text \<open>The width in bytes of the white-space rune a string starts or ends with; 0 if none.\<close>

definition leadingSpace :: "string \<Rightarrow> nat" where
  "leadingSpace s =
     (case s of
        [] \<Rightarrow> 0
      | c # _ \<Rightarrow>
          if asciiSpace c then 1
          else (case List.find (\<lambda>t. take (length t) s = t) unicodeSpace of
                  None \<Rightarrow> 0
                | Some t \<Rightarrow> length t))"

definition trailingSpace :: "string \<Rightarrow> nat" where
  "trailingSpace s =
     (if s = [] then 0
      else if asciiSpace (last s) then 1
      else (case List.find (\<lambda>t. drop (length s - length t) s = t) unicodeSpace of
              None \<Rightarrow> 0
            | Some t \<Rightarrow> length t))"

function trimLeft :: "string \<Rightarrow> string" where
  "trimLeft s = (if leadingSpace s = 0 then s else trimLeft (drop (leadingSpace s) s))"
  by pat_completeness auto
termination
  by (relation "measure length") (auto simp: leadingSpace_def split: list.splits)

function trimRight :: "string \<Rightarrow> string" where
  "trimRight s =
     (if trailingSpace s = 0 then s else trimRight (take (length s - trailingSpace s) s))"
  by pat_completeness auto
termination
  by (relation "measure length") (auto simp: trailingSpace_def split: if_splits)

declare trimLeft.simps [simp del] trimRight.simps [simp del]

definition TrimSpace :: "string \<Rightarrow> string" where
  "TrimSpace s = trimRight (trimLeft s)"

subsection \<open>\<^verbatim>\<open>base64.StdEncoding.DecodeString\<close>\<close>

text \<open>
  The standard alphabet with \<open>=\<close> padding, not strict: carriage returns and line feeds are
  skipped wherever they stand, and the unused low bits of a padded final quantum are not
  checked. Four sextets give three bytes; a final quantum of two or three sextets must be
  padded to four characters and nothing but line breaks may follow the padding. The error
  carries the offset of the offending input byte.
\<close>

datatype b64error = CorruptInputError nat

definition decodeMap :: "char \<Rightarrow> nat" where
  "decodeMap c =
     (if isUpperAZ c then byteval c - 65
      else if isLowerAZ c then byteval c - 71
      else if isDigit09 c then byteval c + 4
      else if c = CHR ''+'' then 62
      else if c = CHR ''/'' then 63
      else 255)"

definition byte :: "64 word \<Rightarrow> char" where
  "byte v = char_of (unat (ucast v :: 8 word))"

text \<open>
  The bytes of one quantum: \<open>dbuf\<close> holds the sextets read (two to four of them); a
  quantum of \<open>dlen\<close> sextets yields \<open>dlen - 1\<close> bytes.
\<close>

definition quantumBytes :: "nat list \<Rightarrow> string" where
  "quantumBytes dbuf =
     (let d = map of_nat (dbuf @ replicate (4 - length dbuf) 0) :: 64 word list;
          val = push_bit 18 (d ! 0) OR push_bit 12 (d ! 1) OR push_bit 6 (d ! 2) OR (d ! 3)
      in take (length dbuf - 1) [byte (drop_bit 16 val), byte (drop_bit 8 val), byte val])"

definition isNewline :: "char \<Rightarrow> bool" where
  "isNewline c = (c = CHR 0x0A \<or> c = CHR 0x0D)"

text \<open>
  The padding character \<open>=\<close> was read at offset \<open>si\<close> with \<open>dbuf\<close> holding the sextets of
  the current quantum; \<open>rest\<close> is the input after it.
\<close>

definition decodePadding :: "nat \<Rightarrow> nat list \<Rightarrow> string \<Rightarrow> b64error + string" where
  "decodePadding si dbuf rest =
     (if length dbuf < 2 then Inl (CorruptInputError si)
      else if length dbuf = 2 then
        (let skipped = takeWhile isNewline rest;
             rest1 = dropWhile isNewline rest;
             si1 = si + 1 + length skipped
         in case rest1 of
              [] \<Rightarrow> Inl (CorruptInputError si1)
            | c # rest2 \<Rightarrow>
                if c \<noteq> CHR ''='' then Inl (CorruptInputError (si1 - 1))
                else (case dropWhile isNewline rest2 of
                        [] \<Rightarrow> Inr (quantumBytes dbuf)
                      | _ # _ \<Rightarrow>
                          Inl (CorruptInputError
                                 (si1 + 1 + length (takeWhile isNewline rest2)))))
      else (case dropWhile isNewline rest of
              [] \<Rightarrow> Inr (quantumBytes dbuf)
            | _ # _ \<Rightarrow>
                Inl (CorruptInputError (si + 1 + length (takeWhile isNewline rest)))))"

text \<open>\<open>decodeFrom si dbuf src\<close>: \<open>src\<close> is the input from offset \<open>si\<close> on.\<close>

fun decodeFrom :: "nat \<Rightarrow> nat list \<Rightarrow> string \<Rightarrow> b64error + string" where
  "decodeFrom si dbuf [] =
     (if dbuf = [] then Inr [] else Inl (CorruptInputError (si - length dbuf)))"
| "decodeFrom si dbuf (c # cs) =
     (if decodeMap c \<noteq> 255 then
        (if length dbuf = 3 then
           (case decodeFrom (si + 1) [] cs of
              Inl e \<Rightarrow> Inl e
            | Inr out \<Rightarrow> Inr (quantumBytes (dbuf @ [decodeMap c]) @ out))
         else decodeFrom (si + 1) (dbuf @ [decodeMap c]) cs)
      else if isNewline c then decodeFrom (si + 1) dbuf cs
      else if c \<noteq> CHR ''='' then Inl (CorruptInputError si)
      else decodePadding si dbuf cs)"

definition DecodeString :: "string \<Rightarrow> b64error + string" where
  "DecodeString s = decodeFrom 0 [] s"

section \<open>Requests, handlers and construction\<close>

text \<open>
  The middleware modelled is the one with the response buffer and the forward headers,
  which the tests exercise; without forward headers it is the earlier buffered variant.
  The downstream handler is opaque. It is modelled by the calls it makes, in order, on the
  \<^verbatim>\<open>http.ResponseWriter\<close> it is handed (\<^verbatim>\<open>Header()\<close> with \<^verbatim>\<open>Add\<close>/\<^verbatim>\<open>Set\<close>/\<^verbatim>\<open>Del\<close>,
  \<^verbatim>\<open>Write\<close>, \<^verbatim>\<open>WriteHeader\<close>) and on the header map of the request it shares with the
  middleware; it may end in a panic. Which calls it makes may depend on the request.
\<close>

datatype action =
    RespHeaderAdd string string
  | RespHeaderSet string string
  | RespHeaderDel string
  | RespWrite string
  | RespWriteHeader int
  | ReqHeaderAdd string string
  | ReqHeaderSet string string
  | ReqHeaderDel string
  | Panic string

record request =
  Method :: string
  URL :: string
  Header :: header
  ReqBody :: string

type_synonym handler = "request \<Rightarrow> action list"

record Config =
  NotifyHeader :: string
  NotifyUrl :: string
  ForwardHeaders :: "string list"

definition CreateConfig :: Config where
  "CreateConfig = \<lparr>NotifyHeader = [], NotifyUrl = [], ForwardHeaders = []\<rparr>"

record notify =
  nextHandler :: handler
  forwardHeaders :: "string list"
  notifyHeader :: string
  notifyUrl :: string
  name :: string

text \<open>
  \<^verbatim>\<open>New\<close> returns the pair (handler, error) of the source: \<open>None\<close> is Go's \<^verbatim>\<open>nil\<close>.
\<close>

definition New :: "handler \<Rightarrow> Config \<Rightarrow> string \<Rightarrow> notify option \<times> string option" where
  "New nxt config nm =
     (if length (NotifyHeader config) = 0 then (None, Some ''notifyheader cannot be empty'')
      else if length (NotifyUrl config) = 0 then (None, Some ''notifyurl cannot be empty'')
      else (Some \<lparr>nextHandler = nxt,
                   forwardHeaders = ForwardHeaders config,
                   notifyHeader = NotifyHeader config,
                   notifyUrl = NotifyUrl config,
                   name = nm\<rparr>, None))"

section \<open>The response buffer\<close>

text \<open>
  The real sink \<^verbatim>\<open>rw\<close> is an \<^verbatim>\<open>http.ResponseWriter\<close> owned by the host. It is modelled as
  a recorder: its header map, the status and the snapshot of the header map fixed by the
  first \<^verbatim>\<open>WriteHeader\<close> (a \<^verbatim>\<open>Write\<close> before any \<^verbatim>\<open>WriteHeader\<close> fixes status 200), the
  body bytes written, and the calls received in order. What the client is sent is
  \<open>sent\<close> and \<open>body\<close>.
\<close>

datatype sink_call = CallWriteHeader int | CallWrite string

record sink =
  hdr :: header
  sent :: "(int \<times> header) option"
  body :: string
  trace :: "sink_call list"

definition StatusOK :: int where
  "StatusOK = 200"

definition StatusAccepted :: int where
  "StatusAccepted = 202"

definition fixStatus :: "int \<Rightarrow> sink \<Rightarrow> sink" where
  "fixStatus c s = (case sent s of None \<Rightarrow> s\<lparr>sent := Some (c, hdr s)\<rparr> | Some _ \<Rightarrow> s)"

definition sinkWriteHeader :: "int \<Rightarrow> sink \<Rightarrow> sink" where
  "sinkWriteHeader c s = (fixStatus c s)\<lparr>trace := trace s @ [CallWriteHeader c]\<rparr>"

definition sinkWrite :: "string \<Rightarrow> sink \<Rightarrow> sink" where
  "sinkWrite b s =
     (let s1 = fixStatus StatusOK s in s1\<lparr>body := body s1 @ b, trace := trace s1 @ [CallWrite b]\<rparr>)"

record wrappedResponseWriter =
  w :: sink
  buf :: string
  code :: int

definition newResponseWriter :: "sink \<Rightarrow> wrappedResponseWriter" where
  "newResponseWriter rw = \<lparr>w = rw, buf = [], code = StatusOK\<rparr>"

text \<open>\<^verbatim>\<open>Header()\<close> hands out the sink's own map: reads and updates go to it.\<close>

definition wHeader :: "wrappedResponseWriter \<Rightarrow> header" where
  "wHeader wr = hdr (w wr)"

definition updHeader :: "(header \<Rightarrow> header) \<Rightarrow> wrappedResponseWriter \<Rightarrow> wrappedResponseWriter" where
  "updHeader f wr = wr\<lparr>w := (w wr)\<lparr>hdr := f (hdr (w wr))\<rparr>\<rparr>"

definition wWrite :: "string \<Rightarrow> wrappedResponseWriter \<Rightarrow> wrappedResponseWriter" where
  "wWrite b wr = wr\<lparr>buf := buf wr @ b\<rparr>"

definition wWriteHeader :: "int \<Rightarrow> wrappedResponseWriter \<Rightarrow> wrappedResponseWriter" where
  "wWriteHeader c wr = wr\<lparr>code := c\<rparr>"

text \<open>
  \<^verbatim>\<open>Flush\<close>: \<^verbatim>\<open>WriteHeader\<close> on the sink, then \<^verbatim>\<open>io.Copy\<close> from the buffer, which hands a
  non-empty buffer to the sink in one \<^verbatim>\<open>Write\<close>, makes no call for an empty one, and leaves
  the buffer empty.
\<close>

definition Flush :: "wrappedResponseWriter \<Rightarrow> wrappedResponseWriter" where
  "Flush wr =
     (let s1 = sinkWriteHeader (code wr) (w wr);
          s2 = (if buf wr = [] then s1 else sinkWrite (buf wr) s1)
      in wr\<lparr>w := s2, buf := []\<rparr>)"

section \<open>The downstream handler\<close>

fun step :: "action \<Rightarrow> wrappedResponseWriter \<times> request \<Rightarrow> wrappedResponseWriter \<times> request" where
  "step (RespHeaderAdd k v) (wr, rq) = (updHeader (\<lambda>h. Add h k v) wr, rq)"
| "step (RespHeaderSet k v) (wr, rq) = (updHeader (\<lambda>h. Set h k v) wr, rq)"
| "step (RespHeaderDel k) (wr, rq) = (updHeader (\<lambda>h. Del h k) wr, rq)"
| "step (RespWrite b) (wr, rq) = (wWrite b wr, rq)"
| "step (RespWriteHeader c) (wr, rq) = (wWriteHeader c wr, rq)"
| "step (ReqHeaderAdd k v) (wr, rq) = (wr, rq\<lparr>Header := Add (Header rq) k v\<rparr>)"
| "step (ReqHeaderSet k v) (wr, rq) = (wr, rq\<lparr>Header := Set (Header rq) k v\<rparr>)"
| "step (ReqHeaderDel k) (wr, rq) = (wr, rq\<lparr>Header := Del (Header rq) k\<rparr>)"
| "step (Panic m) (wr, rq) = (wr, rq)"

text \<open>
  Running the handler: the writer and the request as it leaves them, and the panic value
  if it panicked (the calls after a panic are not made).
\<close>

fun runHandler :: "action list \<Rightarrow> wrappedResponseWriter \<times> request
    \<Rightarrow> wrappedResponseWriter \<times> request \<times> string option" where
  "runHandler [] (wr, rq) = (wr, rq, None)"
| "runHandler (Panic m # _) (wr, rq) = (wr, rq, Some m)"
| "runHandler (a # acts) (wr, rq) = runHandler acts (step a (wr, rq))"

section \<open>The notify middleware\<close>

text \<open>
  What the middleware cannot decide by itself is a parameter: whether \<^verbatim>\<open>http.NewRequest\<close>
  accepts the method and URL (\<open>NewRequestErr\<close>), what the test hooks \<^verbatim>\<open>mockPost\<close> and
  \<^verbatim>\<open>mockRead\<close> are set to, and what \<^verbatim>\<open>http.DefaultClient.Do\<close> returns. A response body is
  modelled by what \<^verbatim>\<open>io.ReadAll\<close> returns on it: \<open>Inl\<close> a read error, \<open>Inr\<close> its bytes.
\<close>

record response =
  StatusCode :: int
  Body :: "string + string"

record env =
  NewRequestErr :: "string \<Rightarrow> string \<Rightarrow> string option"
  mockPost :: "(request \<Rightarrow> string + response) option"
  DefaultClientDo :: "request \<Rightarrow> string + response"
  mockRead :: "((string + string) \<Rightarrow> string + string) option"

definition NewRequest :: "env \<Rightarrow> string \<Rightarrow> string \<Rightarrow> string \<Rightarrow> string + request" where
  "NewRequest e m u b =
     (case NewRequestErr e m u of
        Some err \<Rightarrow> Inl err
      | None \<Rightarrow> Inr \<lparr>Method = m, URL = u, Header = Map.empty, ReqBody = b\<rparr>)"

definition ReadAll :: "(string + string) \<Rightarrow> string + string" where
  "ReadAll r = r"

definition readBody :: "env \<Rightarrow> (string + string) \<Rightarrow> string + string" where
  "readBody e r = (case mockRead e of Some f \<Rightarrow> f r | None \<Rightarrow> ReadAll r)"

definition post :: "env \<Rightarrow> request \<Rightarrow> string + response" where
  "post e rq = (case mockPost e of Some f \<Rightarrow> f rq | None \<Rightarrow> DefaultClientDo e rq)"

datatype log_line =
    LogBase64DecodeError b64error
  | LogCreateRequestError string
  | LogPostError string
  | LogNotifySuccess
  | LogReadBodyError string
  | LogNotifyFailed string

text \<open>
  The state of one call of \<^verbatim>\<open>ServeHTTP\<close>: the buffer, the request, the lines logged, the
  requests handed to \<^verbatim>\<open>post\<close>, and the panic that is propagating, if any.
\<close>

record exec =
  respWriter :: wrappedResponseWriter
  req :: request
  logs :: "log_line list"
  posts :: "request list"
  panicked :: "string option"

definition println :: "log_line \<Rightarrow> exec \<Rightarrow> exec" where
  "println l st = st\<lparr>logs := logs st @ [l]\<rparr>"

text \<open>
  The first loop over the forward-header names fills a local map (\<open>forwardHeaders'\<close> in
  \<open>notifyStep\<close>) that nothing reads afterwards; it has no effect on the call.
\<close>

fun forwardHeadersMap :: "string list \<Rightarrow> header \<Rightarrow> header \<Rightarrow> header" where
  "forwardHeadersMap [] rh acc = acc"
| "forwardHeadersMap (k # ks) rh acc =
     forwardHeadersMap ks rh (if Get rh k \<noteq> [] then Add acc k (Get rh k) else acc)"

text \<open>The second loop sets the trimmed, non-empty values on the notification request.\<close>

fun forwardLoop :: "string list \<Rightarrow> header \<Rightarrow> request \<Rightarrow> request" where
  "forwardLoop [] rh myreq = myreq"
| "forwardLoop (h # hs) rh myreq =
     (let headerValu = TrimSpace (Get rh h)
      in if headerValu = [] then forwardLoop hs rh myreq
         else forwardLoop hs rh (myreq\<lparr>Header := Set (Header myreq) h headerValu\<rparr>))"

text \<open>The body of \<^verbatim>\<open>ServeHTTP\<close> after the downstream handler has returned.\<close>

definition notifyStep :: "env \<Rightarrow> notify \<Rightarrow> exec \<Rightarrow> exec" where
  "notifyStep e a st =
     (let val = Get (wHeader (respWriter st)) (notifyHeader a)
      in if val = [] then st
         else case DecodeString val of
           Inl err \<Rightarrow> println (LogBase64DecodeError err) st
         | Inr data \<Rightarrow>
             (let forwardHeaders' =
                    forwardHeadersMap (forwardHeaders a) (Header (req st)) Map.empty
              in case NewRequest e ''POST'' (notifyUrl a) data of
                Inl err \<Rightarrow> println (LogCreateRequestError err) st
              | Inr myreq0 \<Rightarrow>
                  (let myreq1 = myreq0\<lparr>Header := Set (Header myreq0) ''Content-Type''
                                                    ''application/json''\<rparr>;
                       myreq = forwardLoop (forwardHeaders a) (Header (req st)) myreq1;
                       st1 = st\<lparr>posts := posts st @ [myreq]\<rparr>
                   in case post e myreq of
                        Inl err \<Rightarrow> println (LogPostError err) st1
                      | Inr resp \<Rightarrow>
                          if StatusCode resp = StatusAccepted then println LogNotifySuccess st1
                          else (case readBody e (Body resp) of
                                  Inl err \<Rightarrow> println (LogReadBodyError err) st1
                                | Inr bodyBytes \<Rightarrow> println (LogNotifyFailed bodyBytes) st1))))"

text \<open>The deferred function: delete the marker header, then flush.\<close>

definition deferred :: "notify \<Rightarrow> exec \<Rightarrow> exec" where
  "deferred a st =
     st\<lparr>respWriter := Flush (updHeader (\<lambda>h. Del h (notifyHeader a)) (respWriter st))\<rparr>"

text \<open>
  \<^verbatim>\<open>ServeHTTP\<close>: wrap the sink, run the handler, run the notification steps unless the
  handler panicked, and run the deferred function on every path. A panic is not
  recovered: it is reported in \<open>panicked\<close>.
\<close>

definition ServeHTTP :: "env \<Rightarrow> notify \<Rightarrow> sink \<Rightarrow> request \<Rightarrow> exec" where
  "ServeHTTP e a rw rq =
     (case runHandler (nextHandler a rq) (newResponseWriter rw, rq) of
        (wr, rq', pan) \<Rightarrow>
          (let st = \<lparr>respWriter = wr, req = rq', logs = [], posts = [], panicked = pan\<rparr>
           in deferred a (case pan of Some _ \<Rightarrow> st | None \<Rightarrow> notifyStep e a st)))"

text \<open>A sink nothing has been written to, with the header map the host hands over.\<close>

definition newSink :: "header \<Rightarrow> sink" where
  "newSink h = \<lparr>hdr = h, sent = None, body = [], trace = []\<rparr>"

section \<open>Observations\<close>

text \<open>
  The buffer and the request as the downstream handler leaves them, and its panic value
  if it panicked; the first value of the marker header in the buffer's headers at that
  point, which is what \<^verbatim>\<open>ServeHTTP\<close> reads.
\<close>

definition bufferAfter :: "notify \<Rightarrow> sink \<Rightarrow> request \<Rightarrow> wrappedResponseWriter" where
  "bufferAfter a rw rq = fst (runHandler (nextHandler a rq) (newResponseWriter rw, rq))"

definition requestAfter :: "notify \<Rightarrow> sink \<Rightarrow> request \<Rightarrow> request" where
  "requestAfter a rw rq = fst (snd (runHandler (nextHandler a rq) (newResponseWriter rw, rq)))"

definition handlerPanic :: "notify \<Rightarrow> sink \<Rightarrow> request \<Rightarrow> string option" where
  "handlerPanic a rw rq = snd (snd (runHandler (nextHandler a rq) (newResponseWriter rw, rq)))"

definition markerValue :: "notify \<Rightarrow> sink \<Rightarrow> request \<Rightarrow> string" where
  "markerValue a rw rq = Get (wHeader (bufferAfter a rw rq)) (notifyHeader a)"

text \<open>
  What the client is sent: the status and headers fixed on the sink (if any) and the body
  bytes. What a buffer holds for the client: its status code, its headers and its bytes.
\<close>

definition clientResponse :: "exec \<Rightarrow> (int \<times> header) option \<times> string" where
  "clientResponse out = (sent (w (respWriter out)), body (w (respWriter out)))"

definition buffered :: "wrappedResponseWriter \<Rightarrow> (int \<times> header) option \<times> string" where
  "buffered wr = (Some (code wr, wHeader wr), buf wr)"

definition withoutMarker :: "notify \<Rightarrow> wrappedResponseWriter \<Rightarrow> wrappedResponseWriter" where
  "withoutMarker a wr = updHeader (\<lambda>h. Del h (notifyHeader a)) wr"

text \<open>The state in which the steps after the handler start.\<close>

definition afterHandler :: "notify \<Rightarrow> sink \<Rightarrow> request \<Rightarrow> exec" where
  "afterHandler a rw rq =
     \<lparr>respWriter = bufferAfter a rw rq, req = requestAfter a rw rq, logs = [], posts = [],
      panicked = handlerPanic a rw rq\<rparr>"



definition callsWriteHeader :: "action \<Rightarrow> bool" where
  "callsWriteHeader x = (case x of RespWriteHeader _ \<Rightarrow> True | _ \<Rightarrow> False)"

section \<open>Test fixtures\<close>

text \<open>The configuration, handlers and notification endpoints of the repository's tests.\<close>

definition tRequest :: request where
  "tRequest = \<lparr>Method = ''GET'', URL = ''/'', Header = Map.empty, ReqBody = []\<rparr>"

definition tRequestSpaces :: request where
  "tRequestSpaces = tRequest\<lparr>Header := [''X-Test-Forward-A'' \<mapsto> ['' a '']]\<rparr>"

definition tNotify :: "action list \<Rightarrow> string list \<Rightarrow> notify" where
  "tNotify acts fwd =
     \<lparr>nextHandler = (\<lambda>_. acts), forwardHeaders = fwd, notifyHeader = ''X-Notify'',
      notifyUrl = ''https://example.com/notification'', name = ''header2post''\<rparr>"



definition hValid :: "action list" where
  "hValid = [RespHeaderAdd ''X-Notify'' ''aGVsbG8gd29ybGQ='', RespWriteHeader 400,
             RespWrite ''hello world'']"

definition hEmptyMarker :: "action list" where
  "hEmptyMarker = [RespHeaderSet ''X-Notify'' [], RespWrite ''hello world'']"


definition hForward :: "action list" where
  "hForward = [ReqHeaderAdd ''X-Test-Forward-A'' ''a'', ReqHeaderAdd ''X-Test-Forward-B'' ''b'',
               RespHeaderAdd ''X-Notify'' ''aGVsbG8gd29ybGQ='', RespWriteHeader 200,
               RespWrite ''hello world'']"

definition hForwardSpaces :: "action list" where
  "hForwardSpaces = [ReqHeaderAdd ''X-Test-Forward-A'' '' a '',
                     RespHeaderAdd ''X-Notify'' ''aGVsbG8gd29ybGQ='', RespWriteHeader 200,
                     RespWrite ''hello world'']"

definition tEnv :: "(string + response) \<Rightarrow> env" where
  "tEnv r = \<lparr>NewRequestErr = (\<lambda>_ _. None), mockPost = Some (\<lambda>_. r),
             DefaultClientDo = (\<lambda>_. Inl ''no network''), mockRead = None\<rparr>"

definition envAccepted :: env where
  "envAccepted = tEnv (Inr \<lparr>StatusCode = 202, Body = Inr []\<rparr>)"

definition envPostError :: env where
  "envPostError = tEnv (Inl ''post error'')"

definition envBadRequest :: env where
  "envBadRequest = tEnv (Inr \<lparr>StatusCode = 400, Body = Inr ''invalid notify url''\<rparr>)"

definition envReadError :: env where
  "envReadError = envBadRequest\<lparr>mockRead := Some (\<lambda>_. Inl ''read body error'')\<rparr>"


section \<open>Evaluation of the library functions on the fixtures\<close>

lemmas key_eval = CanonicalMIMEHeaderKey_def validHeaderFieldByte_def isUpperAZ_def isLowerAZ_def
  isDigit09_def byteval_def toLower_def Let_def

lemma canonical_fixtures:
  "CanonicalMIMEHeaderKey ''X-Notify'' = ''X-Notify''"
  "CanonicalMIMEHeaderKey ''Content-Type'' = ''Content-Type''"
  "CanonicalMIMEHeaderKey ''X-Test-Forward-A'' = ''X-Test-Forward-A''"
  "CanonicalMIMEHeaderKey ''X-Test-Forward-B'' = ''X-Test-Forward-B''"
  "CanonicalMIMEHeaderKey ''X-Test-Forward-C'' = ''X-Test-Forward-C''"
  by (simp_all add: key_eval)

lemma canonical_lower_case: "CanonicalMIMEHeaderKey ''x-notify'' = ''X-Notify''"
  by (simp add: key_eval char_of_def bit_Suc_0_iff)

lemmas b64_eval = DecodeString_def decodeMap_def isUpperAZ_def isLowerAZ_def isDigit09_def
  byteval_def isNewline_def decodePadding_def quantumBytes_def byte_def char_of_def bit_Suc_0_iff

lemma decode_fixtures:
  "DecodeString ''aGVsbG8gd29ybGQ='' = Inr ''hello world''"
  "DecodeString ''invalid-base64-value'' = Inl (CorruptInputError 7)"
  by (simp_all add: b64_eval)

lemmas trim_eval = TrimSpace_def trimLeft.simps trimRight.simps leadingSpace_def
  trailingSpace_def asciiSpace_def unicodeSpace_def

lemma trim_fixtures:
  "TrimSpace [] = []" "TrimSpace ''a'' = ''a''" "TrimSpace ''b'' = ''b''"
  "TrimSpace '' a '' = ''a''"
  by (simp_all add: trim_eval)


lemmas run_eval = ServeHTTP_def newResponseWriter_def newSink_def updHeader_def wWrite_def
  wWriteHeader_def Add_def Set_def Del_def Get_def wHeader_def canonical_fixtures decode_fixtures
  trim_fixtures notifyStep_def deferred_def Flush_def sinkWriteHeader_def sinkWrite_def
  fixStatus_def println_def NewRequest_def post_def readBody_def ReadAll_def StatusOK_def
  StatusAccepted_def tNotify_def tRequest_def tEnv_def clientResponse_def Let_def
  bufferAfter_def requestAfter_def handlerPanic_def markerValue_def buffered_def
  withoutMarker_def

section \<open>The handler writes to the buffer only\<close>

lemma step_sink:
  "sent (w (fst (step x (wr, rq)))) = sent (w wr) \<and>
   body (w (fst (step x (wr, rq)))) = body (w wr) \<and>
   trace (w (fst (step x (wr, rq)))) = trace (w wr)"
  by (cases x) (simp_all add: updHeader_def wWrite_def wWriteHeader_def)

lemma runHandler_sink:
  "sent (w (fst (runHandler acts (wr, rq)))) = sent (w wr) \<and>
   body (w (fst (runHandler acts (wr, rq)))) = body (w wr) \<and>
   trace (w (fst (runHandler acts (wr, rq)))) = trace (w wr)"
proof (induction acts arbitrary: wr rq)
  case Nil
  show ?case by simp
next
  case (Cons x acts)
  show ?case
  proof (cases "\<exists>m. x = Panic m")
    case True
    then show ?thesis by auto
  next
    case False
    obtain wr1 rq1 where s: "step x (wr, rq) = (wr1, rq1)"
      by (cases "step x (wr, rq)")
    from False have "runHandler (x # acts) (wr, rq) = runHandler acts (wr1, rq1)"
      by (cases x) (simp_all add: s [symmetric])
    moreover have "sent (w wr1) = sent (w wr) \<and> body (w wr1) = body (w wr) \<and>
        trace (w wr1) = trace (w wr)"
      using step_sink [of x wr rq] s by simp
    ultimately show ?thesis using Cons.IH [of wr1 rq1] by simp
  qed
qed

lemma bufferAfter_sink:
  "sent (w (bufferAfter a rw rq)) = sent rw \<and> body (w (bufferAfter a rw rq)) = body rw \<and>
   trace (w (bufferAfter a rw rq)) = trace rw"
  using runHandler_sink [of "nextHandler a rq" "newResponseWriter rw" rq]
  by (simp add: bufferAfter_def newResponseWriter_def)

lemma step_code:
  "\<not> callsWriteHeader x \<Longrightarrow> code (fst (step x (wr, rq))) = code wr"
  by (cases x) (simp_all add: updHeader_def wWrite_def callsWriteHeader_def)

lemma runHandler_code:
  "\<forall>c. RespWriteHeader c \<notin> set acts \<Longrightarrow> code (fst (runHandler acts (wr, rq))) = code wr"
proof (induction acts arbitrary: wr rq)
  case Nil
  show ?case by simp
next
  case (Cons x acts)
  show ?case
  proof (cases "\<exists>m. x = Panic m")
    case True
    then show ?thesis by auto
  next
    case False
    obtain wr1 rq1 where s: "step x (wr, rq) = (wr1, rq1)"
      by (cases "step x (wr, rq)")
    from False have r: "runHandler (x # acts) (wr, rq) = runHandler acts (wr1, rq1)"
      by (cases x) (simp_all add: s [symmetric])
    have "\<not> callsWriteHeader x"
      using Cons.prems by (cases x) (auto simp: callsWriteHeader_def)
    then have "code wr1 = code wr" using step_code [of x wr rq] s by simp
    then show ?thesis using Cons.IH [of wr1 rq1] Cons.prems r by simp
  qed
qed



section \<open>The steps of \<^verbatim>\<open>ServeHTTP\<close>\<close>

lemma notifyStep_frame:
  "respWriter (notifyStep e a st) = respWriter st \<and> req (notifyStep e a st) = req st \<and>
   panicked (notifyStep e a st) = panicked st"
  by (simp add: notifyStep_def println_def Let_def split: sum.splits)

lemma deferred_frame:
  "logs (deferred a st) = logs st \<and> posts (deferred a st) = posts st \<and>
   req (deferred a st) = req st \<and> panicked (deferred a st) = panicked st"
  by (simp add: deferred_def)

lemma ServeHTTP_unfold:
  "ServeHTTP e a rw rq =
     deferred a (case handlerPanic a rw rq of
                   Some _ \<Rightarrow> afterHandler a rw rq
                 | None \<Rightarrow> notifyStep e a (afterHandler a rw rq))"
proof -
  obtain wr rq' pan
    where r: "runHandler (nextHandler a rq) (newResponseWriter rw, rq) = (wr, rq', pan)"
    by (cases "runHandler (nextHandler a rq) (newResponseWriter rw, rq)")
  show ?thesis
    by (cases pan)
       (simp_all add: ServeHTTP_def r afterHandler_def bufferAfter_def requestAfter_def
          handlerPanic_def Let_def)
qed

lemma ServeHTTP_respWriter:
  "respWriter (ServeHTTP e a rw rq) = Flush (withoutMarker a (bufferAfter a rw rq))"
  by (cases "handlerPanic a rw rq")
     (simp_all add: ServeHTTP_unfold deferred_def withoutMarker_def notifyStep_frame
        afterHandler_def)

lemma panic_ServeHTTP:
  "handlerPanic a rw rq = Some m \<Longrightarrow>
     logs (ServeHTTP e a rw rq) = [] \<and> posts (ServeHTTP e a rw rq) = []"
  by (simp add: ServeHTTP_unfold deferred_frame afterHandler_def)

lemma returned_ServeHTTP:
  "handlerPanic a rw rq = None \<Longrightarrow>
     logs (ServeHTTP e a rw rq) = logs (notifyStep e a (afterHandler a rw rq)) \<and>
     posts (ServeHTTP e a rw rq) = posts (notifyStep e a (afterHandler a rw rq))"
  by (simp add: ServeHTTP_unfold deferred_frame)

lemma afterHandler_marker:
  "Get (wHeader (respWriter (afterHandler a rw rq))) (notifyHeader a) = markerValue a rw rq"
  by (simp add: afterHandler_def markerValue_def)

lemma clientResponse_ServeHTTP:
  "clientResponse (ServeHTTP e a (newSink h0) rq)
     = buffered (withoutMarker a (bufferAfter a (newSink h0) rq))"
  using bufferAfter_sink [of a "newSink h0" rq]
  by (simp add: clientResponse_def buffered_def ServeHTTP_respWriter Flush_def Let_def
        sinkWriteHeader_def sinkWrite_def fixStatus_def withoutMarker_def updHeader_def
        wHeader_def newSink_def)


lemma notifyStep_posts:
  assumes "Get (wHeader (respWriter st)) (notifyHeader a) = v" and "v \<noteq> []"
    and "DecodeString v = Inr data" and "NewRequestErr e ''POST'' (notifyUrl a) = None"
  shows "posts (notifyStep e a st) =
           posts st @ [forwardLoop (forwardHeaders a) (Header (req st))
              \<lparr>Method = ''POST'', URL = notifyUrl a,
               Header = Set Map.empty ''Content-Type'' ''application/json'', ReqBody = data\<rparr>]"
  using assms
  by (simp add: notifyStep_def Let_def NewRequest_def println_def split: sum.splits)

section \<open>The forward-header loop\<close>

lemma forwardLoop_Header:
  "Header (forwardLoop hs rh m) k =
     (if \<exists>h \<in> set hs. CanonicalMIMEHeaderKey h = k \<and> TrimSpace (Get rh h) \<noteq> []
      then Some [TrimSpace (case rh k of None \<Rightarrow> [] | Some [] \<Rightarrow> [] | Some (v # _) \<Rightarrow> v)]
      else Header m k)"
proof (induction hs arbitrary: m)
  case Nil
  show ?case by simp
next
  case (Cons h hs)
  show ?case
    by (auto simp: Cons.IH Let_def Set_def Get_def)
qed

lemma forwardLoop_Get:
  assumes "h \<in> set hs"
  shows "Get (Header (forwardLoop hs rh m)) h =
           (if TrimSpace (Get rh h) \<noteq> [] then TrimSpace (Get rh h) else Get (Header m) h)"
    and "TrimSpace (Get rh h) = [] \<Longrightarrow>
           Header (forwardLoop hs rh m) (CanonicalMIMEHeaderKey h)
             = Header m (CanonicalMIMEHeaderKey h)"
  using assms by (auto simp: Get_def forwardLoop_Header)

section \<open>Construction contract\<close>

text \<open>
  C4. \<^verbatim>\<open>New\<close> returns a configuration error and no handler when the marker-header name is
  empty, a configuration error and no handler when the notification URL is empty, and a
  handler with no error exactly when both are non-empty.
\<close>

theorem New_contract:
  "(NotifyHeader config = [] \<longrightarrow>
      New nxt config nm = (None, Some ''notifyheader cannot be empty'')) \<and>
   (NotifyHeader config \<noteq> [] \<and> NotifyUrl config = [] \<longrightarrow>
      New nxt config nm = (None, Some ''notifyurl cannot be empty'')) \<and>
   (NotifyUrl config = [] \<longrightarrow> fst (New nxt config nm) = None \<and> snd (New nxt config nm) \<noteq> None) \<and>
   (NotifyHeader config \<noteq> [] \<and> NotifyUrl config \<noteq> [] \<longrightarrow>
      New nxt config nm =
        (Some \<lparr>nextHandler = nxt, forwardHeaders = ForwardHeaders config,
               notifyHeader = NotifyHeader config, notifyUrl = NotifyUrl config,
               name = nm\<rparr>, None))"
  by (simp add: New_def)

theorem New_contract_witness:
  "New (\<lambda>_. []) (CreateConfig\<lparr>NotifyHeader := ''X-Notify''\<rparr>) ''empty notify url''
     = (None, Some ''notifyurl cannot be empty'') \<and>
   New (\<lambda>_. []) (CreateConfig\<lparr>NotifyUrl := ''http://localhost:8000''\<rparr>) ''empty notify header''
     = (None, Some ''notifyheader cannot be empty'') \<and>
   New (\<lambda>_. []) \<lparr>NotifyHeader = ''X-Notify'', NotifyUrl = ''https://example.com/notification'',
                   ForwardHeaders = []\<rparr> ''header2post''
     = (Some \<lparr>nextHandler = \<lambda>_. [], forwardHeaders = [], notifyHeader = ''X-Notify'',
              notifyUrl = ''https://example.com/notification'', name = ''header2post''\<rparr>, None)"
  using New_contract [of "CreateConfig\<lparr>NotifyHeader := ''X-Notify''\<rparr>" "\<lambda>_. []" "''empty notify url''"]
        New_contract [of "CreateConfig\<lparr>NotifyUrl := ''http://localhost:8000''\<rparr>" "\<lambda>_. []"
                         "''empty notify header''"]
        New_contract [of "\<lparr>NotifyHeader = ''X-Notify'', NotifyUrl = ''https://example.com/notification'',
                           ForwardHeaders = []\<rparr>" "\<lambda>_. []" "''header2post''"]
  by (simp add: CreateConfig_def)


section \<open>The client-visible response\<close>

text \<open>
  C1. The status code, headers and body sent to the client, and with them the whole state
  of the buffer and of the sink, are the same in any two runs of \<^verbatim>\<open>ServeHTTP\<close> on the same
  handler, sink and request, whatever the two environments make of the notification:
  a transport error, status 202, another status, or an error reading the response body.
  This holds for every request, so in particular for those whose marker header is valid
  base64.
\<close>

theorem notification_outcome_invisible:
  "clientResponse (ServeHTTP e1 a rw rq) = clientResponse (ServeHTTP e2 a rw rq) \<and>
   respWriter (ServeHTTP e1 a rw rq) = respWriter (ServeHTTP e2 a rw rq)"
  by (simp add: clientResponse_def ServeHTTP_respWriter)

text \<open>
  The handler of the tests answers 400 with a valid marker; the four endpoints log four
  different lines and the client is sent the same response.
\<close>

theorem notification_outcome_invisible_witness:
  "logs (ServeHTTP envAccepted (tNotify hValid []) (newSink Map.empty) tRequest)
     = [LogNotifySuccess] \<and>
   logs (ServeHTTP envPostError (tNotify hValid []) (newSink Map.empty) tRequest)
     = [LogPostError ''post error''] \<and>
   logs (ServeHTTP envBadRequest (tNotify hValid []) (newSink Map.empty) tRequest)
     = [LogNotifyFailed ''invalid notify url''] \<and>
   logs (ServeHTTP envReadError (tNotify hValid []) (newSink Map.empty) tRequest)
     = [LogReadBodyError ''read body error''] \<and>
   clientResponse (ServeHTTP envAccepted (tNotify hValid []) (newSink Map.empty) tRequest)
     = (Some (400, Map.empty), ''hello world'') \<and>
   clientResponse (ServeHTTP envPostError (tNotify hValid []) (newSink Map.empty) tRequest)
     = clientResponse (ServeHTTP envAccepted (tNotify hValid []) (newSink Map.empty) tRequest) \<and>
   clientResponse (ServeHTTP envBadRequest (tNotify hValid []) (newSink Map.empty) tRequest)
     = clientResponse (ServeHTTP envAccepted (tNotify hValid []) (newSink Map.empty) tRequest) \<and>
   clientResponse (ServeHTTP envReadError (tNotify hValid []) (newSink Map.empty) tRequest)
     = clientResponse (ServeHTTP envAccepted (tNotify hValid []) (newSink Map.empty) tRequest)"
  using notification_outcome_invisible
          [of envPostError "tNotify hValid []" "newSink Map.empty" tRequest envAccepted]
        notification_outcome_invisible
          [of envBadRequest "tNotify hValid []" "newSink Map.empty" tRequest envAccepted]
        notification_outcome_invisible
          [of envReadError "tNotify hValid []" "newSink Map.empty" tRequest envAccepted]
  by (simp add: run_eval hValid_def envAccepted_def envPostError_def envBadRequest_def
        envReadError_def)






text \<open>
  C9. If the handler makes no \<^verbatim>\<open>WriteHeader\<close> call, the status code sent to the client is
  200.
\<close>

theorem default_status_ok:
  assumes "\<forall>c. RespWriteHeader c \<notin> set (nextHandler a rq)"
  shows "\<exists>h. fst (clientResponse (ServeHTTP e a (newSink h0) rq)) = Some (200, h)"
  using runHandler_code [OF assms, of "newResponseWriter (newSink h0)" rq]
  by (simp add: clientResponse_ServeHTTP buffered_def withoutMarker_def updHeader_def
        bufferAfter_def newResponseWriter_def StatusOK_def)

theorem default_status_ok_witness:
  "(\<forall>c. RespWriteHeader c \<notin> set (nextHandler (tNotify hEmptyMarker []) tRequest)) \<and>
   clientResponse (ServeHTTP envAccepted (tNotify hEmptyMarker []) (newSink Map.empty) tRequest)
     = (Some (200, Map.empty), ''hello world'')"
  using default_status_ok [of "tNotify hEmptyMarker []" tRequest envAccepted Map.empty]
  by (simp add: run_eval hEmptyMarker_def envAccepted_def)

section \<open>Flushing\<close>



section \<open>Errors on the notification path\<close>





text \<open>
  C7. When \<^verbatim>\<open>ServeHTTP\<close> has handed a request to \<^verbatim>\<open>post\<close> and \<^verbatim>\<open>post\<close> returns a response,
  exactly one line is logged: the success line if the status code is 202; otherwise the
  body is read and the line is the failure line carrying the bytes read, or, if reading
  fails, the line carrying the read error. So the success line is logged if and only if
  the status code is 202. In each case the buffer is flushed as usual.
\<close>

theorem notify_status_logging:
  assumes "posts (ServeHTTP e a rw rq) = [myreq]"
    and "post e myreq = Inr resp"
  shows "logs (ServeHTTP e a rw rq) =
           [if StatusCode resp = StatusAccepted then LogNotifySuccess
            else (case readBody e (Body resp) of
                    Inl err \<Rightarrow> LogReadBodyError err
                  | Inr bodyBytes \<Rightarrow> LogNotifyFailed bodyBytes)] \<and>
         (LogNotifySuccess \<in> set (logs (ServeHTTP e a rw rq))) = (StatusCode resp = 202) \<and>
         respWriter (ServeHTTP e a rw rq) = Flush (withoutMarker a (bufferAfter a rw rq))"
proof (cases "handlerPanic a rw rq")
  case (Some m)
  then show ?thesis using assms(1) panic_ServeHTTP [of a rw rq m e] by simp
next
  case None
  have p: "posts (notifyStep e a (afterHandler a rw rq)) = [myreq]"
    using returned_ServeHTTP [OF None, of e] assms(1) by simp
  have l: "logs (notifyStep e a (afterHandler a rw rq)) =
           [if StatusCode resp = StatusAccepted then LogNotifySuccess
            else (case readBody e (Body resp) of
                    Inl err \<Rightarrow> LogReadBodyError err
                  | Inr bodyBytes \<Rightarrow> LogNotifyFailed bodyBytes)]"
    using p assms(2)
    by (auto simp: notifyStep_def println_def afterHandler_def Let_def
             split: sum.splits if_splits)
  show ?thesis
    using returned_ServeHTTP [OF None, of e] l
    by (auto simp: ServeHTTP_respWriter StatusAccepted_def split: sum.splits)
qed

theorem notify_status_logging_witness:
  "posts (ServeHTTP envReadError (tNotify hValid []) (newSink Map.empty) tRequest)
     = [\<lparr>Method = ''POST'', URL = ''https://example.com/notification'',
         Header = [''Content-Type'' \<mapsto> [''application/json'']],
         ReqBody = ''hello world''\<rparr>] \<and>
   post envReadError
     \<lparr>Method = ''POST'', URL = ''https://example.com/notification'',
      Header = [''Content-Type'' \<mapsto> [''application/json'']], ReqBody = ''hello world''\<rparr>
     = Inr \<lparr>StatusCode = 400, Body = Inr ''invalid notify url''\<rparr> \<and>
   logs (ServeHTTP envReadError (tNotify hValid []) (newSink Map.empty) tRequest)
     = [LogReadBodyError ''read body error''] \<and>
   clientResponse (ServeHTTP envReadError (tNotify hValid []) (newSink Map.empty) tRequest)
     = (Some (400, Map.empty), ''hello world'')"
  using notify_status_logging
          [of envReadError "tNotify hValid []" "newSink Map.empty" tRequest
              "\<lparr>Method = ''POST'', URL = ''https://example.com/notification'',
                Header = [''Content-Type'' \<mapsto> [''application/json'']],
                ReqBody = ''hello world''\<rparr>"
              "\<lparr>StatusCode = 400, Body = Inr ''invalid notify url''\<rparr>"]
  by (simp add: run_eval hValid_def envReadError_def envBadRequest_def)

section \<open>Forwarded request headers\<close>

text \<open>
  C5, as amended. When a notification request is made, then for every configured
  forward-header name the value is read from the header map of the request as the handler
  left it, never from the response headers. If the value is non-empty after trimming
  surrounding white space, the trimmed value is the single value of that header on the
  notification request, replacing the default \<open>Content-Type\<close> if that is the name. If it is
  absent or empty after trimming, the loop does not set the header: the notification
  request has no such header, unless the name is \<open>Content-Type\<close>, which keeps its default
  \<open>application/json\<close>.
\<close>

theorem forward_headers_trimmed:
  assumes "handlerPanic a rw rq = None"
    and "markerValue a rw rq \<noteq> []"
    and "DecodeString (markerValue a rw rq) = Inr data"
    and "NewRequestErr e ''POST'' (notifyUrl a) = None"
    and "h \<in> set (forwardHeaders a)"
  shows "\<exists>myreq. posts (ServeHTTP e a rw rq) = [myreq] \<and>
           Get (Header myreq) h =
             (if TrimSpace (Get (Header (requestAfter a rw rq)) h) \<noteq> []
              then TrimSpace (Get (Header (requestAfter a rw rq)) h)
              else if CanonicalMIMEHeaderKey h = ''Content-Type'' then ''application/json''
              else []) \<and>
           (TrimSpace (Get (Header (requestAfter a rw rq)) h) \<noteq> [] \<longrightarrow>
              Header myreq (CanonicalMIMEHeaderKey h)
                = Some [TrimSpace (Get (Header (requestAfter a rw rq)) h)]) \<and>
           (TrimSpace (Get (Header (requestAfter a rw rq)) h) = [] \<and>
            CanonicalMIMEHeaderKey h \<noteq> ''Content-Type'' \<longrightarrow>
              Header myreq (CanonicalMIMEHeaderKey h) = None)"
proof -
  define m1 where "m1 = \<lparr>Method = ''POST'', URL = notifyUrl a,
       Header = Set Map.empty ''Content-Type'' ''application/json'', ReqBody = data\<rparr>"
  define myreq
    where "myreq = forwardLoop (forwardHeaders a) (Header (requestAfter a rw rq)) m1"
  have "posts (notifyStep e a (afterHandler a rw rq)) = [myreq]"
    using notifyStep_posts [OF afterHandler_marker assms(2,3,4)]
    by (simp add: myreq_def m1_def afterHandler_def)
  then have p: "posts (ServeHTTP e a rw rq) = [myreq]"
    using returned_ServeHTTP [OF assms(1), of e] by simp
  have g: "Get (Header m1) h =
             (if CanonicalMIMEHeaderKey h = ''Content-Type'' then ''application/json'' else [])"
    by (simp add: m1_def Get_def Set_def canonical_fixtures)
  have n: "CanonicalMIMEHeaderKey h \<noteq> ''Content-Type''
             \<Longrightarrow> Header m1 (CanonicalMIMEHeaderKey h) = None"
    by (simp add: m1_def Set_def canonical_fixtures)
  have s: "TrimSpace (Get (Header (requestAfter a rw rq)) h) \<noteq> [] \<Longrightarrow>
             Header myreq (CanonicalMIMEHeaderKey h)
               = Some [TrimSpace (Get (Header (requestAfter a rw rq)) h)]"
    using assms(5) by (auto simp: myreq_def forwardLoop_Header Get_def)
  show ?thesis
    using p forwardLoop_Get [OF assms(5), of "Header (requestAfter a rw rq)" m1] g n s
    by (auto simp: myreq_def)
qed

text \<open>
  The forward-header test: the handler puts A and B on the request; the notification
  request carries A and B and no C.
\<close>

theorem forward_headers_trimmed_witness:
  "handlerPanic (tNotify hForward [''X-Test-Forward-A'', ''X-Test-Forward-B'',
      ''X-Test-Forward-C'']) (newSink Map.empty) tRequest = None \<and>
   markerValue (tNotify hForward [''X-Test-Forward-A'', ''X-Test-Forward-B'',
      ''X-Test-Forward-C'']) (newSink Map.empty) tRequest = ''aGVsbG8gd29ybGQ='' \<and>
   DecodeString ''aGVsbG8gd29ybGQ='' = Inr ''hello world'' \<and>
   NewRequestErr envBadRequest ''POST'' ''https://example.com/notification'' = None \<and>
   posts (ServeHTTP envBadRequest
            (tNotify hForward [''X-Test-Forward-A'', ''X-Test-Forward-B'', ''X-Test-Forward-C''])
            (newSink Map.empty) tRequest)
     = [\<lparr>Method = ''POST'', URL = ''https://example.com/notification'',
         Header = [''Content-Type'' \<mapsto> [''application/json''],
                   ''X-Test-Forward-A'' \<mapsto> [''a''], ''X-Test-Forward-B'' \<mapsto> [''b'']],
         ReqBody = ''hello world''\<rparr>]"
  using forward_headers_trimmed
          [of "tNotify hForward [''X-Test-Forward-A'', ''X-Test-Forward-B'', ''X-Test-Forward-C'']"
              "newSink Map.empty" tRequest "''hello world''" envBadRequest "''X-Test-Forward-C''"]
  by (simp add: run_eval hForward_def envBadRequest_def)

text \<open>
  C5 as stated fails on a request whose forwarded header has surrounding white space, and
  on a forward-header name that is \<open>Content-Type\<close>: the request carries \<open>X-Test-Forward-A\<close>
  with the value \<open>a\<close> between two spaces and no \<open>Content-Type\<close>; the notification request
  carries \<open>X-Test-Forward-A\<close> with the value \<open>a\<close> and \<open>Content-Type\<close> with its default.
\<close>

theorem forward_verbatim_counterexample:
  "Get (Header tRequestSpaces) ''X-Test-Forward-A'' = '' a '' \<and>
   Get (Header tRequestSpaces) ''Content-Type'' = [] \<and>
   posts (ServeHTTP envAccepted (tNotify hValid [''X-Test-Forward-A'', ''Content-Type''])
            (newSink Map.empty) tRequestSpaces)
     = [\<lparr>Method = ''POST'', URL = ''https://example.com/notification'',
         Header = [''Content-Type'' \<mapsto> [''application/json''],
                   ''X-Test-Forward-A'' \<mapsto> [''a'']],
         ReqBody = ''hello world''\<rparr>] \<and>
   Get (Header (hd (posts (ServeHTTP envAccepted
                             (tNotify hValid [''X-Test-Forward-A'', ''Content-Type''])
                             (newSink Map.empty) tRequestSpaces)))) ''X-Test-Forward-A''
     \<noteq> Get (Header tRequestSpaces) ''X-Test-Forward-A'' \<and>
   Get (Header (hd (posts (ServeHTTP envAccepted
                             (tNotify hValid [''X-Test-Forward-A'', ''Content-Type''])
                             (newSink Map.empty) tRequestSpaces)))) ''Content-Type''
     = ''application/json''"
  by (simp add: run_eval hValid_def envAccepted_def tRequestSpaces_def)

end
